theory Spec2Isabelle
  imports Main "HOL-Library.Word"
begin

unbundle bit_operations_syntax

section \<open>winble: a shallow embedding of src/winble/winble.cpp\<close>

text \<open>
  The source is a Windows (C++/WinRT) BLE client. Platform objects are modelled by what
  their calls return; every \<^verbatim>\<open>throw\<close> of the source and every failing platform call
  the source relies on is a value of \<open>error\<close>.
\<close>

datatype error =
    StdException \<comment> \<open>\<^verbatim>\<open>throw std::exception()\<close>\<close>
  | StdExceptionMsg string \<comment> \<open>a \<^verbatim>\<open>std::exception\<close> thrown with a message\<close>
  | OutOfBounds \<comment> \<open>a platform read or lookup outside the valid range\<close>
  | NullDevice \<comment> \<open>a call on a null \<^verbatim>\<open>BluetoothLEDevice\<close>\<close>
  | IllegalState \<comment> \<open>a watcher call in a state that does not allow it\<close>
  | EraseEnd \<comment> \<open>\<^verbatim>\<open>erase(end())\<close> on a container: undefined behaviour\<close>

subsection \<open>Address text to number (lines 35-42)\<close>

text \<open>
  \<^verbatim>\<open>strtoul(nptr, NULL, 16)\<close> as ISO C defines it: leading white space is skipped, one
  sign is accepted, then an optional \<^verbatim>\<open>0x\<close> prefix, then the longest run of hexadecimal
  digits. No digits give 0; a value that does not fit \<^verbatim>\<open>unsigned long\<close> gives
  \<^verbatim>\<open>ULONG_MAX\<close>, which is \<open>2 ^ w - 1\<close>; a minus sign negates in the return type,
  that is modulo \<open>2 ^ w\<close>. The width \<open>w\<close> of \<^verbatim>\<open>unsigned long\<close> is the length of the
  type parameter \<open>'a\<close>.
\<close>

definition isspace :: "char \<Rightarrow> bool" where
  "isspace c = (let n = (of_char c :: nat) in n = 32 \<or> (9 \<le> n \<and> n \<le> 13))"

definition xdigit_value :: "char \<Rightarrow> nat option" where
  "xdigit_value c =
     (let n = (of_char c :: nat) in
      if 48 \<le> n \<and> n \<le> 57 then Some (n - 48)
      else if 97 \<le> n \<and> n \<le> 102 then Some (n - 87)
      else if 65 \<le> n \<and> n \<le> 70 then Some (n - 55)
      else None)"

definition isxdigit :: "char \<Rightarrow> bool" where
  "isxdigit c = (xdigit_value c \<noteq> None)"

fun accumulate :: "nat \<Rightarrow> string \<Rightarrow> nat" where
  "accumulate acc [] = acc"
| "accumulate acc (c # cs) =
     (case xdigit_value c of
        None \<Rightarrow> acc
      | Some d \<Rightarrow> accumulate (acc * 16 + d) cs)"

fun take_sign :: "string \<Rightarrow> bool \<times> string" where
  "take_sign [] = (False, [])"
| "take_sign (c # cs) =
     (if c = CHR ''-'' then (True, cs)
      else if c = CHR ''+'' then (False, cs)
      else (False, c # cs))"

fun skip_0x :: "string \<Rightarrow> string" where
  "skip_0x (c0 # cx # d # rest) =
     (if c0 = CHR ''0'' \<and> (cx = CHR ''x'' \<or> cx = CHR ''X'') \<and> isxdigit d
      then d # rest else c0 # cx # d # rest)"
| "skip_0x s = s"

definition strtoul16 :: "string \<Rightarrow> 'a::len word" where
  "strtoul16 nptr =
     (let (negative, s) = take_sign (dropWhile isspace nptr);
          v = accumulate 0 (skip_0x s)
      in if 2 ^ LENGTH('a) \<le> v then word_of_nat (2 ^ LENGTH('a) - 1)
         else if negative then word_of_nat (2 ^ LENGTH('a) - v)
         else word_of_nat v)"

text \<open>
  \<^verbatim>\<open>unsigned long\<close> has 32 bits on every Windows target, the only platform the source
  builds for (it includes the WinRT headers and links \<^verbatim>\<open>windowsapp\<close>); the result is
  widened to the \<^verbatim>\<open>uint64_t\<close> the function returns.
\<close>

type_synonym ulong = "32 word"
type_synonym uint64_t = "64 word"

definition strip_colons :: "string \<Rightarrow> string" where
  "strip_colons macAddress = filter (\<lambda>c. c \<noteq> CHR '':'') macAddress"

definition MacAddressStringToUint :: "string \<Rightarrow> uint64_t" where
  "MacAddressStringToUint macAddress =
     ucast (strtoul16 (strip_colons macAddress) :: ulong)"

text \<open>The value of a run of hexadecimal digits, most significant digit first.\<close>

definition hex_value :: "string \<Rightarrow> nat" where
  "hex_value ds = foldl (\<lambda>a c. a * 16 + the (xdigit_value c)) 0 ds"

text \<open>
  The text left once \<^verbatim>\<open>strtoul\<close> has skipped white space and one sign: where the
  digits have to start.
\<close>

definition subject :: "string \<Rightarrow> string" where
  "subject t = snd (take_sign (dropWhile isspace t))"

definition leading_xdigit :: "string \<Rightarrow> bool" where
  "leading_xdigit t = (case t of [] \<Rightarrow> False | c # _ \<Rightarrow> isxdigit c)"


subsection \<open>Characteristic identifiers (lines 56-65)\<close>

type_synonym byte = "8 word"
type_synonym bytes = "byte list"

text \<open>
  \<^verbatim>\<open>winrt::guid\<close>: \<^verbatim>\<open>uint32_t Data1; uint16_t Data2; uint16_t Data3; uint8_t Data4[8]\<close>.
  \<open>Data4\<close> is a list here; a well-formed value has eight bytes there.
\<close>

record guid =
  Data1 :: "32 word"
  Data2 :: "16 word"
  Data3 :: "16 word"
  Data4 :: bytes

definition guid_ok :: "guid \<Rightarrow> bool" where
  "guid_ok u = (length (Data4 u) = 8)"

text \<open>
  The platform's \<^verbatim>\<open>DataReader\<close>. Its \<^verbatim>\<open>ByteOrder\<close> is \<^verbatim>\<open>BigEndian\<close> unless set, and the
  source does not set it. \<^verbatim>\<open>ReadGuid\<close> takes the next 16 bytes: the three integer fields
  in the reader's byte order, then the eight bytes of \<open>Data4\<close> as they come; with fewer
  than 16 bytes left it fails.
\<close>

datatype ByteOrder = LittleEndian | BigEndian

definition load_be :: "bytes \<Rightarrow> 'a::len word" where
  "load_be bs = foldl (\<lambda>a b. push_bit 8 a OR ucast b) 0 bs"

fun load :: "ByteOrder \<Rightarrow> bytes \<Rightarrow> 'a::len word" where
  "load BigEndian bs = load_be bs"
| "load LittleEndian bs = load_be (rev bs)"

definition ReadGuid :: "ByteOrder \<Rightarrow> bytes \<Rightarrow> error + guid" where
  "ReadGuid order buffer =
     (if length buffer < 16 then Inl OutOfBounds
      else Inr \<lparr>Data1 = load order (take 4 buffer),
                Data2 = load order (take 2 (drop 4 buffer)),
                Data3 = load order (take 2 (drop 6 buffer)),
                Data4 = take 8 (drop 8 buffer)\<rparr>)"

definition BytesToGuid :: "bytes \<Rightarrow> error + guid" where
  "BytesToGuid guidBytes =
     (case ReadGuid BigEndian guidBytes of
        Inl e \<Rightarrow> Inl e
      | Inr result \<Rightarrow> Inr (result\<lparr>Data4 := rev (Data4 result)\<rparr>))"

text \<open>The platform's \<^verbatim>\<open>DataWriter\<close>, the other direction of \<open>load\<close>.\<close>

definition store_be :: "nat \<Rightarrow> 'a::len word \<Rightarrow> bytes" where
  "store_be n w = map (\<lambda>i. ucast (drop_bit (8 * i) w)) (rev [0..<n])"

fun store :: "ByteOrder \<Rightarrow> nat \<Rightarrow> 'a::len word \<Rightarrow> bytes" where
  "store BigEndian n w = store_be n w"
| "store LittleEndian n w = rev (store_be n w)"

text \<open>
  Modelled from the spec: \<^verbatim>\<open>EncodeUuid\<close> is not in the source (the source only decodes).
  The spec calls it the exact inverse of \<^verbatim>\<open>DecodeUuid\<close>: the 16 raw bytes are the GUID in
  the platform layout, with the last eight bytes (\<open>Data4\<close>) in reversed order.
\<close>

definition EncodeUuid :: "guid \<Rightarrow> bytes" where
  "EncodeUuid u =
     store BigEndian 4 (Data1 u) @ store BigEndian 2 (Data2 u) @ store BigEndian 2 (Data3 u)
       @ rev (Data4 u)"


subsection \<open>The platform's GATT objects\<close>

datatype GattCommunicationStatus = Success | Unreachable | ProtocolError | AccessDenied

text \<open>\<^verbatim>\<open>static_cast<int>(status)\<close>: the enumerators count from 0 in this order.\<close>

fun status_code :: "GattCommunicationStatus \<Rightarrow> int" where
  "status_code Success = 0"
| "status_code Unreachable = 1"
| "status_code ProtocolError = 2"
| "status_code AccessDenied = 3"

text \<open>
  \<^verbatim>\<open>std::exception(message, n)\<close>, the constructor line 139 calls. Only the platform's
  library has it, as \<^verbatim>\<open>exception(char const*, int)\<close>; its second parameter has no
  name and no use, so the exception holds the message alone.
\<close>

definition std_exception :: "string \<Rightarrow> int \<Rightarrow> error" where
  "std_exception message n = StdExceptionMsg message"

record GattCharacteristic =
  Uuid :: guid
  AttributeHandle :: "16 word"

text \<open>
  A service and a device are what their discovery calls return: a status and, with it,
  the objects found.
\<close>

record GattCharacteristicsResult =
  Status_chr :: GattCommunicationStatus
  Characteristics :: "GattCharacteristic list"

record GattDeviceService =
  GetCharacteristicsAsync :: GattCharacteristicsResult

record GattDeviceServicesResult =
  Status_svc :: GattCommunicationStatus
  Services :: "GattDeviceService list"

record BluetoothLEDevice =
  GetGattServicesAsync :: GattDeviceServicesResult

datatype GattClientCharacteristicConfigurationDescriptorValue = NoValue | Notify | Indicate

text \<open>
  The caller's callback is known by a number. The platform calls the source makes are
  recorded, oldest first; \<open>radio\<close> is what the link answers to a write.
\<close>

type_synonym handler = nat

datatype call =
    FromIdAsync string
  | FromBluetoothAddressAsync uint64_t
  | WriteValueAsync GattCharacteristic bytes
  | WriteClientCharacteristicConfigurationDescriptorAsync
      GattCharacteristic GattClientCharacteristicConfigurationDescriptorValue
  | ValueChanged GattCharacteristic handler

type_synonym radio = "call \<Rightarrow> GattCommunicationStatus"

text \<open>
  \<^verbatim>\<open>ValueChanged(handler)\<close> adds a handler to the characteristic's event and returns a
  token; nothing in the source ever revokes one. The callbacks registered on a
  characteristic are therefore the \<open>ValueChanged\<close> calls made on it.
\<close>

fun callbacks :: "call list \<Rightarrow> GattCharacteristic \<Rightarrow> handler list" where
  "callbacks [] c = []"
| "callbacks (ValueChanged c' h # calls) c =
     (if c' = c then h # callbacks calls c else callbacks calls c)"
| "callbacks (_ # calls) c = callbacks calls c"

subsection \<open>Discovery at connect time (lines 67-110)\<close>

text \<open>The loop over the services, with the characteristics collected so far.\<close>

fun collect ::
  "GattDeviceService list \<Rightarrow> GattCharacteristic list \<Rightarrow> error + GattCharacteristic list" where
  "collect [] allCharacteristics = Inr allCharacteristics"
| "collect (service # services) allCharacteristics =
     (let characteristicsResult = GetCharacteristicsAsync service
      in if Status_chr characteristicsResult \<noteq> Success then Inl StdException
         else collect services (allCharacteristics @ Characteristics characteristicsResult))"

definition GetCharacteristics :: "BluetoothLEDevice \<Rightarrow> error + GattCharacteristic list" where
  "GetCharacteristics device =
     (let getServicesResult = GetGattServicesAsync device
      in if Status_svc getServicesResult \<noteq> Success then Inl StdException
         else collect (Services getServicesResult) [])"

record WinBleDevice =
  m_device :: BluetoothLEDevice
  m_characteristics :: "GattCharacteristic list"

text \<open>
  The constructor. The platform hands back a null device when it finds none; the first
  call on it then fails.
\<close>

definition WinBleDevice_init :: "BluetoothLEDevice option \<Rightarrow> error + WinBleDevice" where
  "WinBleDevice_init device =
     (case device of
        None \<Rightarrow> Inl NullDevice
      | Some d \<Rightarrow>
          (case GetCharacteristics d of
             Inl e \<Rightarrow> Inl e
           | Inr cs \<Rightarrow> Inr \<lparr>m_device = d, m_characteristics = cs\<rparr>))"

text \<open>What a complete discovery is: every status a success, every characteristic kept.\<close>

definition discovery_succeeds :: "BluetoothLEDevice \<Rightarrow> bool" where
  "discovery_succeeds device =
     (Status_svc (GetGattServicesAsync device) = Success \<and>
      (\<forall>service \<in> set (Services (GetGattServicesAsync device)).
         Status_chr (GetCharacteristicsAsync service) = Success))"

definition all_characteristics :: "BluetoothLEDevice \<Rightarrow> GattCharacteristic list" where
  "all_characteristics device =
     concat (map (\<lambda>service. Characteristics (GetCharacteristicsAsync service))
       (Services (GetGattServicesAsync device)))"

subsection \<open>Operations on a characteristic (lines 112-188)\<close>

text \<open>
  \<^verbatim>\<open>std::find_if\<close> gives a position; the length of the list is \<^verbatim>\<open>end()\<close>.
\<close>

definition find_if :: "('a \<Rightarrow> bool) \<Rightarrow> 'a list \<Rightarrow> nat" where
  "find_if p xs = length (takeWhile (\<lambda>x. \<not> p x) xs)"

definition WriteToCharacteristic ::
  "radio \<Rightarrow> WinBleDevice \<Rightarrow> bytes \<Rightarrow> bytes \<Rightarrow> call list \<Rightarrow> (error + unit) \<times> call list" where
  "WriteToCharacteristic radio dev characteristicId data calls =
     (case BytesToGuid characteristicId of
        Inl e \<Rightarrow> (Inl e, calls)
      | Inr characteristicGuid \<Rightarrow>
          (let characteristicItr =
                 find_if (\<lambda>characteristic. characteristicGuid = Uuid characteristic)
                   (m_characteristics dev)
           in if characteristicItr = length (m_characteristics dev)
              then (Inl StdException, calls)
              else
                (let c = m_characteristics dev ! characteristicItr;
                     result = radio (WriteValueAsync c data)
                 in (if result \<noteq> Success
                     then Inl (std_exception
                            ''WinBleDevice: Error sending data to bluetooth device.''
                            (status_code result))
                     else Inr (),
                     calls @ [WriteValueAsync c data]))))"

definition Subscribe ::
  "radio \<Rightarrow> WinBleDevice \<Rightarrow> bytes \<Rightarrow> handler option \<Rightarrow> call list
     \<Rightarrow> (error + unit) \<times> call list" where
  "Subscribe radio dev characteristicId eventHandler calls =
     (case eventHandler of
        None \<Rightarrow> (Inr (), calls)
      | Some h \<Rightarrow>
          (case BytesToGuid characteristicId of
             Inl e \<Rightarrow> (Inl e, calls)
           | Inr characteristicGuid \<Rightarrow>
               (let characteristicItr =
                      find_if (\<lambda>characteristic. characteristicGuid = Uuid characteristic)
                        (m_characteristics dev)
                in if characteristicItr = length (m_characteristics dev)
                   then (Inl StdException, calls)
                   else
                     (let c = m_characteristics dev ! characteristicItr;
                          enable = WriteClientCharacteristicConfigurationDescriptorAsync c Notify;
                          status = radio enable
                      in if status \<noteq> Success
                         then (Inl StdException, calls @ [enable])
                         else (Inr (), calls @ [enable, ValueChanged c h])))))"

subsection \<open>The adapter (lines 201-349)\<close>

datatype DeviceWatcherStatus =
  Created | Started | EnumerationCompleted | Stopping | Stopped | Aborted

datatype watcher_event = Added | Updated | Removed | EnumerationCompletedEvent

text \<open>
  The watcher: its status and the handlers registered on its events, in the order of
  registration. A token is the position of its handler in that list.
\<close>

record DeviceWatcher =
  Status :: DeviceWatcherStatus
  Handlers :: "watcher_event list"

record DeviceInformation =
  Id_info :: string
  Name :: string
  Properties :: "(string \<times> string) list"

record DeviceInformationUpdate =
  Id_upd :: string
  Properties_upd :: "(string \<times> string) list"

record WinBleAdapter =
  m_deviceWatcher :: DeviceWatcher
  m_nearbyDevices :: "DeviceInformation list"
  m_addedEventToken :: nat
  m_updatedEventToken :: nat
  m_removedEventToken :: nat
  m_deviceEunumerationCompletedEventToken :: nat

text \<open>
  The platform's \<^verbatim>\<open>DeviceWatcher.Start\<close>: allowed from \<open>Created\<close>, \<open>Stopped\<close> and
  \<open>Aborted\<close> only.
\<close>

definition DeviceWatcher_Start :: "DeviceWatcher \<Rightarrow> error + DeviceWatcher" where
  "DeviceWatcher_Start w =
     (if Status w = Created \<or> Status w = Stopped \<or> Status w = Aborted
      then Inr (w\<lparr>Status := Started\<rparr>) else Inl IllegalState)"

definition register :: "watcher_event \<Rightarrow> DeviceWatcher \<Rightarrow> nat \<times> DeviceWatcher" where
  "register ev w = (length (Handlers w), w\<lparr>Handlers := Handlers w @ [ev]\<rparr>)"

definition Start :: "WinBleAdapter \<Rightarrow> (error + unit) \<times> WinBleAdapter" where
  "Start a =
     (if Status (m_deviceWatcher a) = Started then (Inr (), a)
      else
        (let (t1, w1) = register Added (m_deviceWatcher a);
             (t2, w2) = register Updated w1;
             (t3, w3) = register Removed w2;
             (t4, w4) = register EnumerationCompletedEvent w3;
             a' = a\<lparr>m_addedEventToken := t1, m_updatedEventToken := t2,
                    m_removedEventToken := t3,
                    m_deviceEunumerationCompletedEventToken := t4\<rparr>
         in case DeviceWatcher_Start w4 of
              Inl e \<Rightarrow> (Inl e, a'\<lparr>m_deviceWatcher := w4\<rparr>)
            | Inr w5 \<Rightarrow> (Inr (), a'\<lparr>m_deviceWatcher := w5\<rparr>)))"

text \<open>
  The table is a list in the set's iteration order. The platform's \<^verbatim>\<open>Update\<close> merges
  the changed properties into the record.
\<close>

definition Update :: "DeviceInformation \<Rightarrow> DeviceInformationUpdate \<Rightarrow> DeviceInformation" where
  "Update deviceInfo deviceInfoUpdate =
     deviceInfo\<lparr>Properties := Properties_upd deviceInfoUpdate @ Properties deviceInfo\<rparr>"

definition on_Updated :: "WinBleAdapter \<Rightarrow> DeviceInformationUpdate \<Rightarrow> WinBleAdapter" where
  "on_Updated a deviceInfoUpdate =
     (let foundDeviceInfoItr =
            find_if (\<lambda>deviceInfo. Id_info deviceInfo = Id_upd deviceInfoUpdate)
              (m_nearbyDevices a)
      in if foundDeviceInfoItr \<noteq> length (m_nearbyDevices a)
         then a\<lparr>m_nearbyDevices :=
                  (m_nearbyDevices a)[foundDeviceInfoItr :=
                     Update (m_nearbyDevices a ! foundDeviceInfoItr) deviceInfoUpdate]\<rparr>
         else a)"

text \<open>
  \<^verbatim>\<open>erase(position)\<close> needs a position that holds an element; \<^verbatim>\<open>end()\<close> does not, and
  erasing it is undefined behaviour.
\<close>

definition erase :: "nat \<Rightarrow> 'a list \<Rightarrow> error + 'a list" where
  "erase pos xs =
     (if pos < length xs then Inr (take pos xs @ drop (Suc pos) xs) else Inl EraseEnd)"

definition on_Removed :: "WinBleAdapter \<Rightarrow> DeviceInformationUpdate \<Rightarrow> error + WinBleAdapter" where
  "on_Removed a deviceInfoUpdate =
     (case erase
             (find_if (\<lambda>deviceInfo. Id_info deviceInfo = Id_upd deviceInfoUpdate)
                (m_nearbyDevices a))
             (m_nearbyDevices a) of
        Inl e \<Rightarrow> Inl e
      | Inr devices \<Rightarrow> Inr (a\<lparr>m_nearbyDevices := devices\<rparr>))"

text \<open>
  \<^verbatim>\<open>Properties().Lookup(key)\<close> fails on a record that does not carry the key.
\<close>

definition GetDeviceAddress :: "DeviceInformation \<Rightarrow> error + string" where
  "GetDeviceAddress deviceInfo =
     (case map_of (Properties deviceInfo) ''System.Devices.Aep.DeviceAddress'' of
        None \<Rightarrow> Inl OutOfBounds
      | Some v \<Rightarrow> Inr v)"

text \<open>
  The \<^verbatim>\<open>find_if\<close> of \<open>Connect\<close>: its predicate reads the address of each record it
  passes, so a failing read ends the search.
\<close>

fun find_address :: "string \<Rightarrow> DeviceInformation list \<Rightarrow> error + nat" where
  "find_address address [] = Inr 0"
| "find_address address (deviceInfo # rest) =
     (case GetDeviceAddress deviceInfo of
        Inl e \<Rightarrow> Inl e
      | Inr a \<Rightarrow>
          if a = address then Inr 0
          else (case find_address address rest of
                  Inl e \<Rightarrow> Inl e
                | Inr i \<Rightarrow> Inr (Suc i)))"

text \<open>The two ways the platform opens a device, as test doubles.\<close>

record platform =
  device_from_id :: "string \<Rightarrow> BluetoothLEDevice option"
  device_from_address :: "uint64_t \<Rightarrow> BluetoothLEDevice option"

definition Connect ::
  "platform \<Rightarrow> WinBleAdapter \<Rightarrow> string \<Rightarrow> call list \<Rightarrow> (error + WinBleDevice) \<times> call list" where
  "Connect p a address calls =
     (case find_address address (m_nearbyDevices a) of
        Inl e \<Rightarrow> (Inl e, calls)
      | Inr deviceInfoItr \<Rightarrow>
          if deviceInfoItr \<noteq> length (m_nearbyDevices a)
          then
            (let i = Id_info (m_nearbyDevices a ! deviceInfoItr)
             in (WinBleDevice_init (device_from_id p i), calls @ [FromIdAsync i]))
          else
            (let n = MacAddressStringToUint address
             in (WinBleDevice_init (device_from_address p n),
                 calls @ [FromBluetoothAddressAsync n])))"


subsection \<open>Sample objects\<close>

text \<open>
  A peripheral with one service holding one characteristic, a second peripheral whose
  second service cannot be read, a link that answers every write with success and one
  that is down, and an adapter that has seen the first peripheral.
\<close>

definition sample_id :: bytes where
  "sample_id = [0, 1, 2, 3, 4, 5, 6, 7, 8, 9, 10, 11, 12, 13, 14, 15]"

definition sample_uuid :: guid where
  "sample_uuid =
     \<lparr>Data1 = 0x00010203, Data2 = 0x0405, Data3 = 0x0607,
      Data4 = [15, 14, 13, 12, 11, 10, 9, 8]\<rparr>"

definition other_id :: bytes where
  "other_id = [0, 0, 0, 0, 0, 0, 0, 0, 0, 0, 0, 0, 0, 0, 0, 0]"

definition other_uuid :: guid where
  "other_uuid = \<lparr>Data1 = 0, Data2 = 0, Data3 = 0, Data4 = [0, 0, 0, 0, 0, 0, 0, 0]\<rparr>"

definition sample_characteristic :: GattCharacteristic where
  "sample_characteristic = \<lparr>Uuid = sample_uuid, AttributeHandle = 3\<rparr>"

definition sample_service :: GattDeviceService where
  "sample_service =
     \<lparr>GetCharacteristicsAsync =
        \<lparr>Status_chr = Success, Characteristics = [sample_characteristic]\<rparr>\<rparr>"

definition failing_service :: GattDeviceService where
  "failing_service =
     \<lparr>GetCharacteristicsAsync = \<lparr>Status_chr = Unreachable, Characteristics = []\<rparr>\<rparr>"

definition sample_device :: BluetoothLEDevice where
  "sample_device =
     \<lparr>GetGattServicesAsync = \<lparr>Status_svc = Success, Services = [sample_service]\<rparr>\<rparr>"

definition failing_device :: BluetoothLEDevice where
  "failing_device =
     \<lparr>GetGattServicesAsync =
        \<lparr>Status_svc = Success, Services = [sample_service, failing_service]\<rparr>\<rparr>"

definition sample_session :: WinBleDevice where
  "sample_session = \<lparr>m_device = sample_device, m_characteristics = [sample_characteristic]\<rparr>"

definition radio_up :: radio where
  "radio_up call = Success"

definition radio_down :: radio where
  "radio_down call = Unreachable"

definition radio_denied :: radio where
  "radio_denied call = AccessDenied"

definition sample_info :: DeviceInformation where
  "sample_info =
     \<lparr>Id_info = ''BluetoothLE#0'', Name = ''SK-0001'',
      Properties = [(''System.Devices.Aep.DeviceAddress'', ''aa:bb:cc:dd:ee:ff'')]\<rparr>"

definition sample_adapter :: WinBleAdapter where
  "sample_adapter =
     \<lparr>m_deviceWatcher =
        \<lparr>Status = Started,
         Handlers = [Added, Updated, Removed, EnumerationCompletedEvent]\<rparr>,
      m_nearbyDevices = [sample_info],
      m_addedEventToken = 0, m_updatedEventToken = 1, m_removedEventToken = 2,
      m_deviceEunumerationCompletedEventToken = 3\<rparr>"

definition unknown_update :: DeviceInformationUpdate where
  "unknown_update = \<lparr>Id_upd = ''BluetoothLE#9'', Properties_upd = []\<rparr>"

definition sample_platform :: platform where
  "sample_platform =
     \<lparr>device_from_id = (\<lambda>i. if i = ''BluetoothLE#0'' then Some sample_device else None),
      device_from_address = (\<lambda>n. if n = 0x11223344 then Some failing_device else None)\<rparr>"


section \<open>Properties\<close>

lemmas parse_defs = MacAddressStringToUint_def strip_colons_def strtoul16_def isspace_def
  xdigit_value_def isxdigit_def subject_def leading_xdigit_def hex_value_def

lemmas guid_defs = BytesToGuid_def ReadGuid_def load_be_def sample_id_def sample_uuid_def
  other_id_def other_uuid_def

lemmas sample_defs = sample_characteristic_def sample_service_def failing_service_def
  sample_device_def failing_device_def sample_session_def radio_up_def radio_down_def
  radio_denied_def
  sample_info_def sample_adapter_def unknown_update_def sample_platform_def

subsection \<open>Address text\<close>

lemma strip_colons_idem: "strip_colons (strip_colons s) = strip_colons s"
  by (simp add: strip_colons_def)

lemma isxdigit_not_space: "isxdigit c \<Longrightarrow> \<not> isspace c"
  by (auto simp: isxdigit_def isspace_def xdigit_value_def Let_def split: if_splits)

lemma isxdigit_not_sign: "isxdigit c \<Longrightarrow> c \<noteq> CHR ''-'' \<and> c \<noteq> CHR ''+''"
  by (auto simp: isxdigit_def xdigit_value_def)

lemma isxdigit_not_x: "isxdigit c \<Longrightarrow> c \<noteq> CHR ''x'' \<and> c \<noteq> CHR ''X''"
  by (auto simp: isxdigit_def xdigit_value_def)

lemma isxdigit_zero: "isxdigit CHR ''0''"
  by (simp add: isxdigit_def xdigit_value_def)

lemma dropWhile_isspace_digits: "\<forall>c\<in>set s. isxdigit c \<Longrightarrow> dropWhile isspace s = s"
  by (cases s) (auto dest: isxdigit_not_space)

lemma take_sign_digits: "\<forall>c\<in>set s. isxdigit c \<Longrightarrow> take_sign s = (False, s)"
  by (cases s) (auto dest: isxdigit_not_sign)

lemma skip_0x_digits: "\<forall>c\<in>set s. isxdigit c \<Longrightarrow> skip_0x s = s"
  by (induction s rule: skip_0x.induct) (auto dest: isxdigit_not_x)

lemma accumulate_digits:
  "\<forall>c\<in>set s. isxdigit c \<Longrightarrow>
   accumulate a s = foldl (\<lambda>a c. a * 16 + the (xdigit_value c)) a s"
  by (induction s arbitrary: a) (auto simp: isxdigit_def)

lemma accumulate_no_digit: "\<not> leading_xdigit s \<Longrightarrow> accumulate a s = a"
  by (cases s) (auto simp: isxdigit_def leading_xdigit_def)

lemma skip_0x_no_digit: "\<not> leading_xdigit s \<Longrightarrow> skip_0x s = s"
  by (induction s rule: skip_0x.induct) (auto simp: isxdigit_zero leading_xdigit_def)

lemma ucast_ulong_of_nat:
  "v < 2 ^ 32 \<Longrightarrow> (ucast (word_of_nat v :: ulong) :: uint64_t) = word_of_nat v"
  by (simp add: unsigned_of_nat take_bit_nat_eq_self)

lemma strtoul16_digits:
  assumes "\<forall>c\<in>set s. isxdigit c" and "hex_value s < 2 ^ LENGTH('a)"
  shows "(strtoul16 s :: 'a::len word) = word_of_nat (hex_value s)"
  using assms
  by (simp add: strtoul16_def dropWhile_isspace_digits take_sign_digits skip_0x_digits
      accumulate_digits hex_value_def)

lemma strtoul16_no_digit:
  assumes "\<not> leading_xdigit (subject s)"
  shows "(strtoul16 s :: 'a::len word) = 0"
proof -
  obtain neg t where nt: "take_sign (dropWhile isspace s) = (neg, t)"
    by (cases "take_sign (dropWhile isspace s)")
  with assms have "\<not> leading_xdigit t"
    by (simp add: subject_def)
  then have "accumulate 0 (skip_0x t) = 0"
    by (simp add: skip_0x_no_digit accumulate_no_digit)
  then show ?thesis
    by (simp add: strtoul16_def nt)
qed

text \<open>
  What \<^verbatim>\<open>strtoul\<close> does with a full 48-bit address where \<^verbatim>\<open>unsigned long\<close> has 32
  bits: the value does not fit and \<^verbatim>\<open>ULONG_MAX\<close> comes back, although the source's
  comment and return type ask for a \<^verbatim>\<open>uint64_t\<close>.
\<close>

lemma MacAddressStringToUint_saturates:
  "MacAddressStringToUint ''AA:BB:CC:DD:EE:FF'' = 0xFFFFFFFF"
  by (simp add: parse_defs)

text \<open>
  Claim C1, as stated, at the input \<^verbatim>\<open>+1F\<close>: after the removal of colons the text has
  no leading hexadecimal digit, and yet the result is 31, not 0, since \<^verbatim>\<open>strtoul\<close>
  accepts a sign.
\<close>

theorem MacAddressStringToUint_sign_counterexample:
  "\<not> leading_xdigit (strip_colons ''+1F'') \<and> MacAddressStringToUint ''+1F'' = 31"
  by (simp add: parse_defs)

text \<open>
  Claim C1, amended. \<open>MacAddressStringToUint\<close> strips every colon from its input and
  parses the rest as \<^verbatim>\<open>strtoul\<close> does in base 16: when the rest consists of hexadecimal
  digits only and their value is below \<open>2 ^ 32\<close>, the result is that value; and when the
  rest, after leading white space and one optional sign, does not start with a
  hexadecimal digit, the result is exactly 0 and nothing fails.
\<close>

theorem MacAddressStringToUint_amended:
  "CHR '':'' \<notin> set (strip_colons text) \<and>
   (list_all isxdigit (strip_colons text) \<and> hex_value (strip_colons text) < 2 ^ 32 \<longrightarrow>
      MacAddressStringToUint text = word_of_nat (hex_value (strip_colons text))) \<and>
   (\<not> leading_xdigit (subject (strip_colons text)) \<longrightarrow> MacAddressStringToUint text = 0)"
proof (intro conjI impI)
  show "CHR '':'' \<notin> set (strip_colons text)"
    by (simp add: strip_colons_def)
next
  assume "list_all isxdigit (strip_colons text) \<and> hex_value (strip_colons text) < 2 ^ 32"
  then show "MacAddressStringToUint text = word_of_nat (hex_value (strip_colons text))"
    by (simp add: MacAddressStringToUint_def strtoul16_digits ucast_ulong_of_nat list_all_iff)
next
  assume "\<not> leading_xdigit (subject (strip_colons text))"
  then show "MacAddressStringToUint text = 0"
    by (simp add: MacAddressStringToUint_def strtoul16_no_digit)
qed

theorem MacAddressStringToUint_amended_witness:
  "list_all isxdigit (strip_colons ''00:11:22:33'') \<and>
   hex_value (strip_colons ''00:11:22:33'') < 2 ^ 32 \<and>
   MacAddressStringToUint ''00:11:22:33'' = 0x112233 \<and>
   \<not> leading_xdigit (subject (strip_colons ''zz'')) \<and>
   MacAddressStringToUint ''zz'' = 0"
  using MacAddressStringToUint_amended [of "''00:11:22:33''"]
    MacAddressStringToUint_amended [of "''zz''"]
  by (simp add: parse_defs)

text \<open>
  Claim C9. Address parsing does not see the separators: two texts that differ only in
  their colons parse to the same number, so a text parses as its colon-free form does,
  and \<^verbatim>\<open>AA:BB:CC:DD:EE:FF\<close> parses as \<^verbatim>\<open>AABBCCDDEEFF\<close> does.
\<close>

theorem MacAddressStringToUint_separator_insensitive:
  "(strip_colons a = strip_colons b \<longrightarrow> MacAddressStringToUint a = MacAddressStringToUint b) \<and>
   MacAddressStringToUint (strip_colons text) = MacAddressStringToUint text \<and>
   MacAddressStringToUint ''AA:BB:CC:DD:EE:FF'' = MacAddressStringToUint ''AABBCCDDEEFF''"
  by (simp add: MacAddressStringToUint_def strip_colons_idem) (simp add: strip_colons_def)

theorem MacAddressStringToUint_separator_insensitive_witness:
  "strip_colons ''00:11:22:33'' = strip_colons ''0011:2233'' \<and>
   MacAddressStringToUint ''00:11:22:33'' = MacAddressStringToUint ''0011:2233''"
  using MacAddressStringToUint_separator_insensitive [of "''00:11:22:33''" "''0011:2233''"]
  by (simp add: strip_colons_def)

subsection \<open>Characteristic identifiers\<close>

lemma upt_small: "[0..<4] = [0, 1, 2, 3]" "[0..<2] = [0, 1]"
  by (simp_all add: upt_rec)

lemma load_store_32: "(load_be (store_be 4 (w :: 32 word)) :: 32 word) = w"
proof (rule bit_word_eqI)
  fix n :: nat
  assume "n < LENGTH(32)"
  then consider "n < 8" | "8 \<le> n" "n < 16" | "16 \<le> n" "n < 24" | "24 \<le> n" "n < 32"
    by fastforce
  then show "bit (load_be (store_be 4 w) :: 32 word) n = bit w n"
    by cases (auto simp: load_be_def store_be_def upt_small bit_simps)
qed

lemma load_store_16: "(load_be (store_be 2 (w :: 16 word)) :: 16 word) = w"
proof (rule bit_word_eqI)
  fix n :: nat
  assume "n < LENGTH(16)"
  then consider "n < 8" | "8 \<le> n" "n < 16"
    by fastforce
  then show "bit (load_be (store_be 2 w) :: 16 word) n = bit w n"
    by cases (auto simp: load_be_def store_be_def upt_small bit_simps)
qed

lemma store_load_32: "store_be 4 (load_be [a, b, c, d] :: 32 word) = [a, b, c, d]"
  apply (simp add: load_be_def store_be_def upt_small)
  apply (intro conjI; rule bit_word_eqI)
     apply (auto simp: bit_simps dest: bit_imp_le_length)
  done

lemma store_load_16: "store_be 2 (load_be [a, b] :: 16 word) = [a, b]"
  apply (simp add: load_be_def store_be_def upt_small)
  apply (intro conjI; rule bit_word_eqI)
   apply (auto simp: bit_simps dest: bit_imp_le_length)
  done

lemma length_store_be: "length (store_be n w) = n"
  by (simp add: store_be_def)

lemma length_EncodeUuid: "length (EncodeUuid u) = 8 + length (Data4 u)"
  by (simp add: EncodeUuid_def length_store_be)

lemma decode_encode: "guid_ok u \<Longrightarrow> BytesToGuid (EncodeUuid u) = Inr u"
  by (simp add: BytesToGuid_def ReadGuid_def length_EncodeUuid guid_ok_def)
     (simp add: EncodeUuid_def length_store_be load_store_32 load_store_16)

lemma eight_bytes:
  "length xs = 8 \<Longrightarrow> \<exists>b0 b1 b2 b3 b4 b5 b6 b7. xs = [b0, b1, b2, b3, b4, b5, b6, b7]"
  by (auto simp: length_Suc_conv numeral_eq_Suc)

lemma sixteen_bytes:
  assumes "length raw = 16"
  obtains b0 b1 b2 b3 b4 b5 b6 b7 rest
  where "raw = [b0, b1, b2, b3, b4, b5, b6, b7] @ rest" "length rest = 8"
proof -
  from assms have len: "length (take 8 raw) = 8" "length (drop 8 raw) = 8"
    by simp_all
  from eight_bytes [OF len(1)]
  obtain b0 b1 b2 b3 b4 b5 b6 b7 where "take 8 raw = [b0, b1, b2, b3, b4, b5, b6, b7]"
    by blast
  then have "raw = [b0, b1, b2, b3, b4, b5, b6, b7] @ drop 8 raw"
    by (metis append_take_drop_id)
  then show ?thesis
    using len(2) by (rule that)
qed

lemma encode_decode:
  assumes "length raw = 16"
  shows "\<exists>u. BytesToGuid raw = Inr u \<and> guid_ok u \<and> Data4 u = rev (drop 8 raw) \<and>
             EncodeUuid u = raw"
proof -
  from assms obtain b0 b1 b2 b3 b4 b5 b6 b7 rest
    where raw: "raw = [b0, b1, b2, b3, b4, b5, b6, b7] @ rest" and rest: "length rest = 8"
    by (rule sixteen_bytes)
  show ?thesis
    by (simp add: raw rest BytesToGuid_def ReadGuid_def guid_ok_def EncodeUuid_def
        store_load_32 store_load_16)
qed

text \<open>
  Claim C2. Decoding and encoding are inverse to each other, between the texts of 16
  bytes and the GUIDs (values of 128 bits): \<open>BytesToGuid\<close> turns the encoding of every
  GUID \<open>u\<close> back into \<open>u\<close>; and it turns every 16 raw bytes into a GUID whose \<open>Data4\<close> is
  the last eight bytes reversed and whose encoding is those 16 bytes again.
\<close>

theorem BytesToGuid_EncodeUuid_bijection:
  "(guid_ok u \<longrightarrow> BytesToGuid (EncodeUuid u) = Inr u) \<and>
   (length raw = 16 \<longrightarrow>
      (\<exists>v. BytesToGuid raw = Inr v \<and> guid_ok v \<and> Data4 v = rev (drop 8 raw) \<and>
           EncodeUuid v = raw))"
  using decode_encode [of u] encode_decode [of raw] by blast

theorem BytesToGuid_EncodeUuid_bijection_witness:
  "guid_ok sample_uuid \<and> BytesToGuid (EncodeUuid sample_uuid) = Inr sample_uuid \<and>
   length sample_id = 16 \<and> BytesToGuid sample_id = Inr sample_uuid \<and>
   Data4 sample_uuid = rev (drop 8 sample_id) \<and> EncodeUuid sample_uuid = sample_id"
proof -
  have ok: "guid_ok sample_uuid" and len: "length sample_id = 16"
    and dec: "BytesToGuid sample_id = Inr sample_uuid"
    by (simp_all add: guid_defs guid_ok_def)
  from BytesToGuid_EncodeUuid_bijection [of sample_uuid sample_id] ok len dec
  show ?thesis
    by auto
qed


subsection \<open>Positions\<close>

lemma find_if_end_iff: "find_if p xs = length xs \<longleftrightarrow> (\<forall>x\<in>set xs. \<not> p x)"
  unfolding find_if_def by (induction xs) auto

lemma find_if_le: "find_if p xs \<le> length xs"
  by (simp add: find_if_def length_takeWhile_le)

lemma find_if_found:
  assumes "find_if p xs \<noteq> length xs"
  shows "find_if p xs < length xs" and "xs ! find_if p xs \<in> set xs"
    and "p (xs ! find_if p xs)"
proof -
  from assms find_if_le [of p xs] show lt: "find_if p xs < length xs"
    by simp
  then show "xs ! find_if p xs \<in> set xs"
    by simp
  from lt nth_length_takeWhile [of "\<lambda>x. \<not> p x" xs] show "p (xs ! find_if p xs)"
    by (simp add: find_if_def)
qed

lemma callbacks_append: "callbacks (xs @ ys) c = callbacks xs c @ callbacks ys c"
  by (induction xs c rule: callbacks.induct) simp_all

subsection \<open>Discovery\<close>

lemma collect_eq:
  "collect services acc =
     (if \<forall>service\<in>set services. Status_chr (GetCharacteristicsAsync service) = Success
      then Inr (acc @ concat (map (\<lambda>service. Characteristics (GetCharacteristicsAsync service))
                  services))
      else Inl StdException)"
  by (induction services arbitrary: acc) (simp_all add: Let_def)

lemma GetCharacteristics_eq:
  "GetCharacteristics device =
     (if discovery_succeeds device then Inr (all_characteristics device) else Inl StdException)"
  by (simp add: GetCharacteristics_def Let_def collect_eq discovery_succeeds_def
      all_characteristics_def)

lemma WinBleDevice_init_Some:
  "WinBleDevice_init (Some device) =
     (if discovery_succeeds device
      then Inr \<lparr>m_device = device, m_characteristics = all_characteristics device\<rparr>
      else Inl StdException)"
  by (simp add: WinBleDevice_init_def GetCharacteristics_eq)

lemma WinBleDevice_init_Inr:
  assumes "WinBleDevice_init device = Inr session"
  shows "device = Some (m_device session) \<and> discovery_succeeds (m_device session) \<and>
         m_characteristics session = all_characteristics (m_device session)"
proof (cases device)
  case None
  with assms show ?thesis by (simp add: WinBleDevice_init_def)
next
  case (Some d)
  with assms show ?thesis
    by (auto simp: WinBleDevice_init_Some split: if_splits)
qed

lemma Connect_outcome:
  "(\<exists>e. fst (Connect p a address calls) = Inl e) \<or>
   (\<exists>i. fst (Connect p a address calls) = WinBleDevice_init (device_from_id p i)) \<or>
   (\<exists>n. fst (Connect p a address calls) = WinBleDevice_init (device_from_address p n))"
  by (auto simp: Connect_def Let_def split: sum.splits)

lemma Connect_sample:
  "Connect sample_platform sample_adapter ''aa:bb:cc:dd:ee:ff'' [] =
     (Inr sample_session, [FromIdAsync ''BluetoothLE#0''])"
  by (simp add: Connect_def Let_def GetDeviceAddress_def WinBleDevice_init_def
      GetCharacteristics_def sample_defs)

lemma Connect_failing:
  "Connect sample_platform sample_adapter ''00:00:11:22:33:44'' [] =
     (Inl StdException, [FromBluetoothAddressAsync 0x11223344])"
  by (simp add: Connect_def Let_def GetDeviceAddress_def WinBleDevice_init_def
      GetCharacteristics_def sample_defs parse_defs)

text \<open>
  Claim C4. Discovery at connect time is all or nothing. The constructor, given a
  device, answers with a session exactly when the enumeration of the services and the
  enumeration of the characteristics of every service report success, and the session's
  cache then holds the characteristics of all services, in order; any other status makes
  it throw, and no session exists. So every session that \<open>Connect\<close> returns is on a
  device the platform opened, all of whose statuses were success, and has a fully
  populated cache.
\<close>

theorem Connect_discovery_all_or_nothing:
  "WinBleDevice_init (Some device) =
     (if discovery_succeeds device
      then Inr \<lparr>m_device = device, m_characteristics = all_characteristics device\<rparr>
      else Inl StdException) \<and>
   (fst (Connect p a address calls) = Inr session \<longrightarrow>
      ((\<exists>i. device_from_id p i = Some (m_device session)) \<or>
       (\<exists>n. device_from_address p n = Some (m_device session))) \<and>
      discovery_succeeds (m_device session) \<and>
      m_characteristics session = all_characteristics (m_device session))"
proof (rule conjI, goal_cases)
  case 1
  show ?case
    by (rule WinBleDevice_init_Some)
next
  case 2
  show ?case
  proof
    assume r: "fst (Connect p a address calls) = Inr session"
    from Connect_outcome [of p a address calls] r
    consider i where "WinBleDevice_init (device_from_id p i) = Inr session"
      | n where "WinBleDevice_init (device_from_address p n) = Inr session"
      by auto
    then show "((\<exists>i. device_from_id p i = Some (m_device session)) \<or>
       (\<exists>n. device_from_address p n = Some (m_device session))) \<and>
      discovery_succeeds (m_device session) \<and>
      m_characteristics session = all_characteristics (m_device session)"
    proof cases
      case 1
      from WinBleDevice_init_Inr [OF 1] show ?thesis by blast
    next
      case 2
      from WinBleDevice_init_Inr [OF 2] show ?thesis by blast
    qed
  qed
qed

theorem Connect_discovery_all_or_nothing_witness:
  "WinBleDevice_init (Some failing_device) = Inl StdException \<and>
   fst (Connect sample_platform sample_adapter ''00:00:11:22:33:44'' []) = Inl StdException \<and>
   fst (Connect sample_platform sample_adapter ''aa:bb:cc:dd:ee:ff'' []) = Inr sample_session \<and>
   device_from_id sample_platform ''BluetoothLE#0'' = Some (m_device sample_session) \<and>
   Status_svc (GetGattServicesAsync (m_device sample_session)) = Success \<and>
   m_characteristics sample_session = all_characteristics (m_device sample_session) \<and>
   m_characteristics sample_session = [sample_characteristic]"
proof -
  have bad: "\<not> discovery_succeeds failing_device"
    by (simp add: discovery_succeeds_def sample_defs)
  have ok: "fst (Connect sample_platform sample_adapter ''aa:bb:cc:dd:ee:ff'' []) =
      Inr sample_session"
    by (simp add: Connect_sample)
  have opened: "device_from_id sample_platform ''BluetoothLE#0'' = Some (m_device sample_session)"
    by (simp add: sample_defs)
  from Connect_discovery_all_or_nothing
         [of failing_device sample_platform sample_adapter "''aa:bb:cc:dd:ee:ff''" "[]"
            sample_session] bad ok opened
  show ?thesis
    by (simp add: discovery_succeeds_def sample_session_def Connect_failing)
qed

subsection \<open>Writing\<close>

lemma sample_guids:
  "BytesToGuid sample_id = Inr sample_uuid" "BytesToGuid other_id = Inr other_uuid"
  "sample_uuid \<noteq> other_uuid" "other_uuid \<noteq> sample_uuid"
  by (simp_all add: guid_defs)

text \<open>
  What a call of \<open>WriteToCharacteristic\<close> does. An id that does not decode, or that
  decodes to a UUID no cached characteristic has, makes it throw without any platform
  call. An id that resolves is written to the first cached characteristic with that
  UUID, by one platform call; when the platform answers with a status other than
  success, the exception thrown holds the message of the source, whatever the status.
\<close>

lemma WriteToCharacteristic_outcomes:
  "(BytesToGuid characteristicId = Inl e \<longrightarrow>
      WriteToCharacteristic radio dev characteristicId data calls = (Inl e, calls)) \<and>
   (BytesToGuid characteristicId = Inr u \<and> (\<forall>c\<in>set (m_characteristics dev). Uuid c \<noteq> u) \<longrightarrow>
      WriteToCharacteristic radio dev characteristicId data calls = (Inl StdException, calls)) \<and>
   (BytesToGuid characteristicId = Inr u \<and> (\<exists>c\<in>set (m_characteristics dev). Uuid c = u) \<longrightarrow>
      (\<exists>c\<in>set (m_characteristics dev). Uuid c = u \<and>
         snd (WriteToCharacteristic radio dev characteristicId data calls) =
           calls @ [WriteValueAsync c data] \<and>
         (radio (WriteValueAsync c data) \<noteq> Success \<longrightarrow>
            fst (WriteToCharacteristic radio dev characteristicId data calls) =
              Inl (StdExceptionMsg
                     ''WinBleDevice: Error sending data to bluetooth device.''))))"
proof (intro conjI impI)
  assume "BytesToGuid characteristicId = Inl e"
  then show "WriteToCharacteristic radio dev characteristicId data calls = (Inl e, calls)"
    by (simp add: WriteToCharacteristic_def)
next
  assume "BytesToGuid characteristicId = Inr u \<and>
    (\<forall>c\<in>set (m_characteristics dev). Uuid c \<noteq> u)"
  then show "WriteToCharacteristic radio dev characteristicId data calls =
      (Inl StdException, calls)"
    by (auto simp: WriteToCharacteristic_def Let_def find_if_end_iff)
next
  let ?p = "\<lambda>characteristic. u = Uuid characteristic"
  let ?cs = "m_characteristics dev"
  let ?c = "?cs ! find_if ?p ?cs"
  assume h: "BytesToGuid characteristicId = Inr u \<and> (\<exists>c\<in>set ?cs. Uuid c = u)"
  then have ne: "find_if ?p ?cs \<noteq> length ?cs"
    by (auto simp: find_if_end_iff)
  from find_if_found(2,3) [OF ne] have "?c \<in> set ?cs" "Uuid ?c = u"
    by simp_all
  moreover from h ne
  have "snd (WriteToCharacteristic radio dev characteristicId data calls) =
          calls @ [WriteValueAsync ?c data]"
    by (simp add: WriteToCharacteristic_def Let_def)
  moreover from h ne
  have "radio (WriteValueAsync ?c data) \<noteq> Success \<longrightarrow>
          fst (WriteToCharacteristic radio dev characteristicId data calls) =
            Inl (StdExceptionMsg ''WinBleDevice: Error sending data to bluetooth device.'')"
    by (simp add: WriteToCharacteristic_def Let_def std_exception_def)
  ultimately show "\<exists>c\<in>set ?cs. Uuid c = u \<and>
         snd (WriteToCharacteristic radio dev characteristicId data calls) =
           calls @ [WriteValueAsync c data] \<and>
         (radio (WriteValueAsync c data) \<noteq> Success \<longrightarrow>
            fst (WriteToCharacteristic radio dev characteristicId data calls) =
              Inl (StdExceptionMsg
                     ''WinBleDevice: Error sending data to bluetooth device.''))"
    by blast
qed

lemma WriteToCharacteristic_unknown_id:
  "WriteToCharacteristic radio_up sample_session other_id [1, 2] [] = (Inl StdException, [])"
  by (simp add: WriteToCharacteristic_def Let_def sample_guids sample_session_def find_if_def
      sample_characteristic_def)

text \<open>
  Claim C5, at two writes to the sample characteristic, one on a link that answers
  \<open>Unreachable\<close> and one on a link that answers \<open>AccessDenied\<close>. The source passes the
  status to the exception it throws, as the claim asks, but the exception does not keep
  it: both writes end in the same error, the message alone, and the status the platform
  returned cannot be read from it.
\<close>

theorem WriteToCharacteristic_drops_status:
  "radio_down (WriteValueAsync sample_characteristic [1, 2]) = Unreachable \<and>
   radio_denied (WriteValueAsync sample_characteristic [1, 2]) = AccessDenied \<and>
   WriteToCharacteristic radio_down sample_session sample_id [1, 2] [] =
     (Inl (StdExceptionMsg ''WinBleDevice: Error sending data to bluetooth device.''),
      [WriteValueAsync sample_characteristic [1, 2]]) \<and>
   WriteToCharacteristic radio_denied sample_session sample_id [1, 2] [] =
     (Inl (StdExceptionMsg ''WinBleDevice: Error sending data to bluetooth device.''),
      [WriteValueAsync sample_characteristic [1, 2]])"
  by (simp add: WriteToCharacteristic_def Let_def std_exception_def sample_guids
      sample_session_def find_if_def sample_characteristic_def radio_down_def
      radio_denied_def)

subsection \<open>Subscribing\<close>

lemma Subscribe_found:
  assumes "BytesToGuid characteristicId = Inr u"
    and "\<exists>c\<in>set (m_characteristics dev). Uuid c = u"
  shows "\<exists>c\<in>set (m_characteristics dev). Uuid c = u \<and>
           Subscribe radio dev characteristicId (Some h) calls =
             (if radio (WriteClientCharacteristicConfigurationDescriptorAsync c Notify) = Success
              then (Inr (),
                    calls @ [WriteClientCharacteristicConfigurationDescriptorAsync c Notify,
                             ValueChanged c h])
              else (Inl StdException,
                    calls @ [WriteClientCharacteristicConfigurationDescriptorAsync c Notify]))"
proof -
  let ?p = "\<lambda>characteristic. u = Uuid characteristic"
  let ?cs = "m_characteristics dev"
  let ?c = "?cs ! find_if ?p ?cs"
  from assms(2) have ne: "find_if ?p ?cs \<noteq> length ?cs"
    by (auto simp: find_if_end_iff)
  from find_if_found(2,3) [OF ne] have "?c \<in> set ?cs" "Uuid ?c = u"
    by simp_all
  moreover from assms(1) ne
  have "Subscribe radio dev characteristicId (Some h) calls =
         (if radio (WriteClientCharacteristicConfigurationDescriptorAsync ?c Notify) = Success
          then (Inr (),
                calls @ [WriteClientCharacteristicConfigurationDescriptorAsync ?c Notify,
                         ValueChanged ?c h])
          else (Inl StdException,
                calls @ [WriteClientCharacteristicConfigurationDescriptorAsync ?c Notify]))"
    by (simp add: Subscribe_def Let_def)
  ultimately show ?thesis
    by blast
qed

lemma Subscribe_not_found:
  assumes "BytesToGuid characteristicId = Inr u"
    and "\<forall>c\<in>set (m_characteristics dev). Uuid c \<noteq> u"
  shows "Subscribe radio dev characteristicId (Some h) calls = (Inl StdException, calls)"
  using assms by (auto simp: Subscribe_def Let_def find_if_end_iff)

text \<open>The four ways a call of \<open>Subscribe\<close> ends.\<close>

lemma Subscribe_cases:
  obtains (absent) "eventHandler = None"
      "Subscribe radio dev characteristicId eventHandler calls = (Inr (), calls)"
  | (unresolved) e where
      "Subscribe radio dev characteristicId eventHandler calls = (Inl e, calls)"
  | (refused) c where "c \<in> set (m_characteristics dev)"
      "radio (WriteClientCharacteristicConfigurationDescriptorAsync c Notify) \<noteq> Success"
      "Subscribe radio dev characteristicId eventHandler calls =
         (Inl StdException,
          calls @ [WriteClientCharacteristicConfigurationDescriptorAsync c Notify])"
  | (subscribed) c h where "c \<in> set (m_characteristics dev)" "eventHandler = Some h"
      "BytesToGuid characteristicId = Inr (Uuid c)"
      "radio (WriteClientCharacteristicConfigurationDescriptorAsync c Notify) = Success"
      "Subscribe radio dev characteristicId eventHandler calls =
         (Inr (),
          calls @ [WriteClientCharacteristicConfigurationDescriptorAsync c Notify,
                   ValueChanged c h])"
proof (cases eventHandler)
  case None
  then show ?thesis by (intro absent) (simp_all add: Subscribe_def)
next
  case (Some h)
  show ?thesis
  proof (cases "BytesToGuid characteristicId")
    case (Inl e)
    with Some show ?thesis by (intro unresolved [of e]) (simp add: Subscribe_def)
  next
    case (Inr u)
    show ?thesis
    proof (cases "\<exists>c\<in>set (m_characteristics dev). Uuid c = u")
      case False
      with Inr Some show ?thesis
        by (intro unresolved [of StdException]) (simp add: Subscribe_not_found)
    next
      case True
      from Subscribe_found [OF Inr True, of radio h calls] Some Inr
      show ?thesis
        by (auto split: if_splits intro: refused subscribed)
    qed
  qed
qed

lemma Subscribe_sample_twice:
  "Subscribe radio_up sample_session sample_id (Some 20)
     (snd (Subscribe radio_up sample_session sample_id (Some 10) [])) =
   (Inr (),
    [WriteClientCharacteristicConfigurationDescriptorAsync sample_characteristic Notify,
     ValueChanged sample_characteristic 10,
     WriteClientCharacteristicConfigurationDescriptorAsync sample_characteristic Notify,
     ValueChanged sample_characteristic 20])"
  by (simp add: Subscribe_def Let_def sample_guids sample_session_def find_if_def
      sample_characteristic_def radio_up_def)

text \<open>
  Claim C7. \<open>Subscribe\<close> with a handler, on an id that resolves, first writes the
  \<open>Notify\<close> value of the configuration descriptor to the characteristic. If the answer
  is success it then registers the callback, and these two are the only platform calls
  it makes, in this order; on any other answer it throws with the descriptor write as
  its only call. Whenever \<open>Subscribe\<close> does not succeed, the callbacks registered on
  every characteristic are what they were.
\<close>

theorem Subscribe_enable_then_register:
  "(BytesToGuid characteristicId = Inr u \<and> (\<exists>c\<in>set (m_characteristics dev). Uuid c = u) \<longrightarrow>
      (\<exists>c\<in>set (m_characteristics dev). Uuid c = u \<and>
         Subscribe radio dev characteristicId (Some h) calls =
           (if radio (WriteClientCharacteristicConfigurationDescriptorAsync c Notify) = Success
            then (Inr (),
                  calls @ [WriteClientCharacteristicConfigurationDescriptorAsync c Notify,
                           ValueChanged c h])
            else (Inl StdException,
                  calls @ [WriteClientCharacteristicConfigurationDescriptorAsync c Notify])))) \<and>
   (fst (Subscribe radio dev characteristicId eventHandler calls) \<noteq> Inr () \<longrightarrow>
      callbacks (snd (Subscribe radio dev characteristicId eventHandler calls)) c' =
        callbacks calls c')"
proof (rule conjI, goal_cases)
  case 1
  show ?case
    using Subscribe_found [of characteristicId u dev radio h calls] by blast
next
  case 2
  show ?case
    by (cases rule: Subscribe_cases [of eventHandler radio dev characteristicId calls])
       (simp_all add: callbacks_append)
qed

theorem Subscribe_enable_then_register_witness:
  "BytesToGuid sample_id = Inr sample_uuid \<and>
   m_characteristics sample_session = [sample_characteristic] \<and>
   Uuid sample_characteristic = sample_uuid \<and>
   Subscribe radio_up sample_session sample_id (Some 10) [] =
     (Inr (),
      [WriteClientCharacteristicConfigurationDescriptorAsync sample_characteristic Notify,
       ValueChanged sample_characteristic 10]) \<and>
   Subscribe radio_down sample_session sample_id (Some 10) [] =
     (Inl StdException,
      [WriteClientCharacteristicConfigurationDescriptorAsync sample_characteristic Notify]) \<and>
   callbacks (snd (Subscribe radio_down sample_session sample_id (Some 10) []))
     sample_characteristic = []"
proof -
  have cache: "m_characteristics sample_session = [sample_characteristic]"
    and uuid: "Uuid sample_characteristic = sample_uuid"
    by (simp_all add: sample_defs)
  from Subscribe_enable_then_register
         [of sample_id sample_uuid sample_session radio_up 10 "[]" "Some 10"
            sample_characteristic]
       Subscribe_enable_then_register
         [of sample_id sample_uuid sample_session radio_down 10 "[]" "Some 10"
            sample_characteristic]
       sample_guids(1) cache uuid
  show ?thesis
    by (simp add: radio_up_def radio_down_def)
qed

text \<open>
  Claim C3, as stated, at two calls of \<open>Subscribe\<close> for the same characteristic id with
  the handlers 10 and 20, on a link that is up: both calls succeed, and the second
  leaves two callbacks registered on the characteristic, the first one still among them.
\<close>

theorem Subscribe_twice_counterexample:
  "fst (Subscribe radio_up sample_session sample_id (Some 20)
         (snd (Subscribe radio_up sample_session sample_id (Some 10) []))) = Inr () \<and>
   callbacks
     (snd (Subscribe radio_up sample_session sample_id (Some 20)
            (snd (Subscribe radio_up sample_session sample_id (Some 10) []))))
     sample_characteristic = [10, 20]"
  by (simp add: Subscribe_sample_twice)

text \<open>
  Claim C3, amended. Every call of \<open>Subscribe\<close> that succeeds with a handler registers
  one more value-changed callback on the cached characteristic its id resolves to, after
  the ones registered there before, and removes none: subscribing again for the same
  characteristic adds a second callback and keeps the first. The callbacks of every
  other characteristic stay as they are.
\<close>

theorem Subscribe_adds_callback:
  "Subscribe radio dev characteristicId eventHandler calls = (Inr (), calls') \<and>
   eventHandler = Some h \<longrightarrow>
     (\<exists>c\<in>set (m_characteristics dev). BytesToGuid characteristicId = Inr (Uuid c) \<and>
        callbacks calls' c = callbacks calls c @ [h] \<and>
        (\<forall>c'. c' \<noteq> c \<longrightarrow> callbacks calls' c' = callbacks calls c'))"
proof
  assume a: "Subscribe radio dev characteristicId eventHandler calls = (Inr (), calls') \<and>
    eventHandler = Some h"
  show "\<exists>c\<in>set (m_characteristics dev). BytesToGuid characteristicId = Inr (Uuid c) \<and>
        callbacks calls' c = callbacks calls c @ [h] \<and>
        (\<forall>c'. c' \<noteq> c \<longrightarrow> callbacks calls' c' = callbacks calls c')"
  proof (cases rule: Subscribe_cases [of eventHandler radio dev characteristicId calls])
    case absent
    with a show ?thesis by simp
  next
    case (unresolved e)
    with a show ?thesis by simp
  next
    case (refused c)
    with a show ?thesis by simp
  next
    case (subscribed c k)
    with a have "calls' =
        calls @ [WriteClientCharacteristicConfigurationDescriptorAsync c Notify,
                 ValueChanged c h]"
      by auto
    with subscribed(1,3) show ?thesis
      by (auto simp: callbacks_append)
  qed
qed

theorem Subscribe_adds_callback_witness:
  "Subscribe radio_up sample_session sample_id (Some 20)
     [ValueChanged sample_characteristic 10] =
     (Inr (),
      [ValueChanged sample_characteristic 10,
       WriteClientCharacteristicConfigurationDescriptorAsync sample_characteristic Notify,
       ValueChanged sample_characteristic 20]) \<and>
   m_characteristics sample_session = [sample_characteristic] \<and>
   callbacks
     [ValueChanged sample_characteristic 10,
      WriteClientCharacteristicConfigurationDescriptorAsync sample_characteristic Notify,
      ValueChanged sample_characteristic 20] sample_characteristic =
     callbacks [ValueChanged sample_characteristic 10] sample_characteristic @ [20]"
proof -
  let ?calls' = "[ValueChanged sample_characteristic 10,
       WriteClientCharacteristicConfigurationDescriptorAsync sample_characteristic Notify,
       ValueChanged sample_characteristic 20]"
  have run: "Subscribe radio_up sample_session sample_id (Some 20)
      [ValueChanged sample_characteristic 10] = (Inr (), ?calls')"
    by (simp add: Subscribe_def Let_def sample_guids sample_session_def find_if_def
        sample_characteristic_def radio_up_def)
  have cache: "m_characteristics sample_session = [sample_characteristic]"
    by (simp add: sample_defs)
  from Subscribe_adds_callback
         [of radio_up sample_session sample_id "Some 20"
            "[ValueChanged sample_characteristic 10]" ?calls' 20] run cache
  show ?thesis
    by simp
qed

subsection \<open>The watcher\<close>

text \<open>
  Claim C8. \<open>Start\<close> on an adapter whose watcher is in the state \<open>Started\<close> returns at
  once: the adapter, with the handlers registered on its watcher and the watcher's
  status, is what it was. A successful \<open>Start\<close> leaves the watcher in that state, so a
  second \<open>Start\<close> right after it changes nothing.
\<close>

theorem Start_when_Started:
  "(Status (m_deviceWatcher a) = Started \<longrightarrow> Start a = (Inr (), a)) \<and>
   (Start a = (Inr (), a') \<longrightarrow> Start a' = (Inr (), a'))"
  by (auto simp: Start_def register_def DeviceWatcher_Start_def Let_def
      split: if_splits)

theorem Start_when_Started_witness:
  "Status (m_deviceWatcher sample_adapter) = Started \<and>
   Start sample_adapter = (Inr (), sample_adapter) \<and>
   Start (sample_adapter\<lparr>m_deviceWatcher := \<lparr>Status = Created, Handlers = []\<rparr>\<rparr>) =
     (Inr (), sample_adapter)"
proof -
  have started: "Status (m_deviceWatcher sample_adapter) = Started"
    by (simp add: sample_defs)
  have first: "Start (sample_adapter\<lparr>m_deviceWatcher := \<lparr>Status = Created, Handlers = []\<rparr>\<rparr>) =
      (Inr (), sample_adapter)"
    by (simp add: Start_def sample_defs register_def DeviceWatcher_Start_def)
  from Start_when_Started [of sample_adapter sample_adapter] started first
  show ?thesis
    by simp
qed

lemma on_Removed_no_match:
  "\<forall>d\<in>set (m_nearbyDevices a). Id_info d \<noteq> Id_upd u \<Longrightarrow> on_Removed a u = Inl EraseEnd"
  by (simp add: on_Removed_def erase_def find_if_end_iff [THEN iffD2])

lemma on_Updated_no_match:
  "\<forall>d\<in>set (m_nearbyDevices a). Id_info d \<noteq> Id_upd u \<Longrightarrow> on_Updated a u = a"
  by (simp add: on_Updated_def find_if_end_iff [THEN iffD2])

lemma on_Removed_match:
  assumes "\<exists>d\<in>set (m_nearbyDevices a). Id_info d = Id_upd u"
  shows "on_Removed a u =
           Inr (a\<lparr>m_nearbyDevices :=
                  take (find_if (\<lambda>d. Id_info d = Id_upd u) (m_nearbyDevices a))
                    (m_nearbyDevices a) @
                  drop (Suc (find_if (\<lambda>d. Id_info d = Id_upd u) (m_nearbyDevices a)))
                    (m_nearbyDevices a)\<rparr>)"
proof -
  let ?p = "\<lambda>d. Id_info d = Id_upd u"
  from assms have "find_if ?p (m_nearbyDevices a) \<noteq> length (m_nearbyDevices a)"
    by (simp add: find_if_end_iff)
  then have "find_if ?p (m_nearbyDevices a) < length (m_nearbyDevices a)"
    by (rule find_if_found(1))
  then show ?thesis
    by (simp add: on_Removed_def erase_def)
qed

text \<open>
  Claim C10, at a \<open>Removed\<close> event for an id the table does not hold. The handler of
  the source passes the result of \<^verbatim>\<open>find_if\<close> to \<^verbatim>\<open>erase\<close> without a test, so it
  erases \<^verbatim>\<open>end()\<close>; the \<open>Updated\<close> handler, on the same event, tests the position and
  leaves the adapter as it is.
\<close>

theorem on_Removed_unknown_id:
  "on_Removed sample_adapter unknown_update = Inl EraseEnd \<and>
   on_Updated sample_adapter unknown_update = sample_adapter"
  by (simp add: on_Removed_def on_Updated_def erase_def find_if_def sample_defs)

subsection \<open>Connecting\<close>




end
